theory Spec2Isabelle
  imports Complex_Main
begin

section \<open>Connectivity monitor: the resilient health check of the extension entry point\<close>

text \<open>
  The entry point keeps two variables, \<^verbatim>\<open>failCount\<close> (initially 0) and
  \<^verbatim>\<open>wasOnline\<close> (initially false), and the constant \<^verbatim>\<open>MAX_FAILS = 3\<close>.
  \<^verbatim>\<open>doHealthCheck\<close> awaits the boolean of \<^verbatim>\<open>brainClient.healthCheck()\<close> and
  then updates both variables in one uninterrupted step; the model takes that boolean as the
  argument \<open>ok\<close>.  Every call of \<^verbatim>\<open>sidebarProvider.updateBrainStatus\<close> made by
  \<^verbatim>\<open>doHealthCheck\<close> is appended to \<open>statusUpdates\<close>.  The counter is a JavaScript
  number that is only ever incremented by one; it is a \<open>nat\<close> here (exact below \<open>2^53\<close>).
\<close>

record monitor =
  failCount :: nat
  wasOnline :: bool
  statusUpdates :: "bool list"

definition MAX_FAILS :: nat where
  "MAX_FAILS = 3"

definition initial_monitor :: monitor where
  "initial_monitor = \<lparr>failCount = 0, wasOnline = False, statusUpdates = []\<rparr>"

definition doHealthCheck :: "bool \<Rightarrow> monitor \<Rightarrow> monitor" where
  "doHealthCheck ok m =
     (if ok then
        (let m1 = m\<lparr>failCount := 0\<rparr> in
         if \<not> wasOnline m1
         then m1\<lparr>wasOnline := True, statusUpdates := statusUpdates m1 @ [True]\<rparr>
         else m1)
      else
        (let m1 = m\<lparr>failCount := failCount m + 1\<rparr> in
         if failCount m1 \<ge> MAX_FAILS \<and> wasOnline m1
         then m1\<lparr>wasOnline := False, statusUpdates := statusUpdates m1 @ [False]\<rparr>
         else m1))"

text \<open>The outcomes of successive health checks, in the order in which they are processed.\<close>

definition run_checks :: "bool list \<Rightarrow> monitor \<Rightarrow> monitor" where
  "run_checks oks m = fold doHealthCheck oks m"

text \<open>
  The spec's counter of consecutive failures: the number of failed probes since the last
  successful one (or since the start when none succeeded).
\<close>

definition failures_since_success :: "bool list \<Rightarrow> nat" where
  "failures_since_success oks = length (takeWhile Not (rev oks))"

section \<open>JavaScript values read by the Brain client\<close>

text \<open>
  \<^verbatim>\<open>JSON.parse\<close> belongs to the platform, not to the repository.  Every function below
  takes it as the parameter \<open>parse\<close>, which returns \<open>None\<close> where \<^verbatim>\<open>JSON.parse\<close>
  throws a SyntaxError.  A parsed value is one of the six JSON shapes; \<open>JObj\<close> lists the own
  properties of the parsed object, one entry per key.  Numbers that \<^verbatim>\<open>JSON.parse\<close> returns
  are doubles, never NaN; the client only tests them for truthiness and hands them on, so
  they are kept as rationals (the infinite values that \<^verbatim>\<open>JSON.parse\<close> gives to literals
  beyond the range of doubles are left out).  Strings are lists of 8-bit characters: the
  model covers JavaScript strings whose code units lie below 256.
\<close>

datatype json =
    JNull
  | JBool bool
  | JNum rat
  | JStr string
  | JArr "json list"
  | JObj "(string \<times> json) list"

datatype error =
    NetworkError string
  | TimeoutError nat
  | RemoteError nat json
  | InvalidResponseError string
  | TypeError

text \<open>
  \<open>RemoteError status detail\<close> stands for \<^verbatim>\<open>new Error(`Brain HTTP ${status}: ${detail}`)\<close>,
  \<open>InvalidResponseError s\<close> for \<^verbatim>\<open>new Error(`Invalid JSON: ${s}`)\<close>, \<open>TimeoutError ms\<close> for
  \<^verbatim>\<open>new Error(`Timeout (${Math.round(ms / 1000)}s)`)\<close>, \<open>NetworkError\<close> for the error object
  of the request's \<^verbatim>\<open>error\<close> event, and \<open>TypeError\<close> for the exceptions of the platform
  (reading a property of \<^verbatim>\<open>null\<close>, \<^verbatim>\<open>new URL\<close> on an invalid URL).
\<close>

datatype 'a promise_result = Resolved 'a | Rejected error

text \<open>Truthiness of a parsed value, as \<^verbatim>\<open>if (v)\<close> and \<^verbatim>\<open>v || d\<close> test it.\<close>

fun truthy :: "json \<Rightarrow> bool" where
  "truthy JNull = False"
| "truthy (JBool b) = b"
| "truthy (JNum n) = (n \<noteq> 0)"
| "truthy (JStr s) = (s \<noteq> [])"
| "truthy (JArr vs) = True"
| "truthy (JObj kvs) = True"

text \<open>
  The property read \<^verbatim>\<open>v.k\<close> for the names the client reads (\<^verbatim>\<open>status\<close>, \<^verbatim>\<open>pct\<close>,
  \<^verbatim>\<open>detail\<close>): a TypeError on \<^verbatim>\<open>null\<close>, the property of an object, and \<^verbatim>\<open>undefined\<close>
  (\<open>None\<close>) on a missing property and on every other value.
\<close>

fun read_prop :: "json \<Rightarrow> string \<Rightarrow> error + json option" where
  "read_prop JNull k = Inl TypeError"
| "read_prop (JObj kvs) k = Inr (map_of kvs k)"
| "read_prop (JBool b) k = Inr None"
| "read_prop (JNum n) k = Inr None"
| "read_prop (JStr s) k = Inr None"
| "read_prop (JArr vs) k = Inr None"

text \<open>\<^verbatim>\<open>v || d\<close> where \<open>v\<close> is the result of a property read.\<close>

definition or_else :: "json option \<Rightarrow> json \<Rightarrow> json" where
  "or_else v d = (case v of None \<Rightarrow> d | Some x \<Rightarrow> if truthy x then x else d)"

section \<open>Transport: the response handlers of \<^verbatim>\<open>_makeRequest\<close>\<close>

text \<open>
  What the HTTP library reports for one request: a response that ended, with its status
  code (\<^verbatim>\<open>res.statusCode\<close>, possibly undefined) and the concatenated body; an
  \<^verbatim>\<open>error\<close> event; or a \<^verbatim>\<open>timeout\<close> event.
\<close>

datatype net_event =
    Response "nat option" string
  | ConnError string
  | Timeout

text \<open>The \<^verbatim>\<open>end\<close> handler of the response, after the slot bookkeeping.\<close>

definition response_end ::
  "(string \<Rightarrow> json option) \<Rightarrow> nat option \<Rightarrow> string \<Rightarrow> json promise_result" where
  "response_end parse statusCode data =
     (let status = (case statusCode of None \<Rightarrow> 0 | Some n \<Rightarrow> n) in
      if status \<ge> 400 then
        (let detail0 = JStr (take 300 data);
             detail = (case parse data of
                         None \<Rightarrow> detail0
                       | Some p \<Rightarrow>
                           (case read_prop p ''detail'' of
                              Inl e \<Rightarrow> detail0
                            | Inr d \<Rightarrow> or_else d detail0))
         in Rejected (RemoteError status detail))
      else
        (case parse data of
           Some v \<Rightarrow> Resolved v
         | None \<Rightarrow> Rejected (InvalidResponseError (take 200 data))))"

text \<open>How the promise of one request settles on each event.\<close>

definition event_outcome ::
  "(string \<Rightarrow> json option) \<Rightarrow> nat \<Rightarrow> net_event \<Rightarrow> json promise_result" where
  "event_outcome parse timeoutMs ev =
     (case ev of
        Response statusCode data \<Rightarrow> response_end parse statusCode data
      | ConnError msg \<Rightarrow> Rejected (NetworkError msg)
      | Timeout \<Rightarrow> Rejected (TimeoutError timeoutMs))"

text \<open>
  The values of \<^verbatim>\<open>JSON.parse\<close> on the sample texts that the concrete instances below
  evaluate.  Outside these texts the table says nothing about \<^verbatim>\<open>JSON.parse\<close>, and no
  theorem evaluates it there, except on \<open>sample_garbage\<close>, which is not JSON.
\<close>

definition sample_json :: "(string \<times> json) list" where
  "sample_json =
     [(''{\"detail\":\"not found\"}'', JObj [(''detail'', JStr ''not found'')]),
      (''{\"detail\":\"\"}'', JObj [(''detail'', JStr '''')]),
      (''{\"detail\":true}'', JObj [(''detail'', JBool True)]),
      (''{\"status\":\"ok\"}'', JObj [(''status'', JStr ''ok'')]),
      (''{\"status\":\"starting\"}'', JObj [(''status'', JStr ''starting'')]),
      (''{\"pct\":10,\"status\":\"running\"}'',
         JObj [(''pct'', JNum 10), (''status'', JStr ''running'')]),
      (''{\"status\":\"done\"}'', JObj [(''status'', JStr ''done'')]),
      (''{\"status\":\"error\"}'', JObj [(''status'', JStr ''error'')]),
      (''null'', JNull)]"

definition sample_parse :: "string \<Rightarrow> json option" where
  "sample_parse = map_of sample_json"

definition sample_garbage :: string where
  "sample_garbage = ''<html>Internal Server Error</html>''"


text \<open>
  The detail that a response body offers, in the words of the amended claim C6: the value of
  the \<^verbatim>\<open>detail\<close> property of the body parsed as a JSON object, when that value is truthy
  (a non-empty string, a non-zero number, \<^verbatim>\<open>true\<close>, an array or an object).
\<close>

definition body_detail :: "(string \<Rightarrow> json option) \<Rightarrow> string \<Rightarrow> json option" where
  "body_detail parse data =
     (case parse data of
        Some (JObj kvs) \<Rightarrow>
          (case map_of kvs ''detail'' of
             Some d \<Rightarrow> if truthy d then Some d else None
           | None \<Rightarrow> None)
      | _ \<Rightarrow> None)"


section \<open>Request dispatcher: the tracked slot\<close>

text \<open>
  \<^verbatim>\<open>new URL\<close> belongs to the platform as well: the parameter \<open>parse_url\<close> returns \<open>None\<close>
  where the constructor throws, and otherwise the fields the client reads.  \<^verbatim>\<open>URL.port\<close> is
  the empty string (\<open>None\<close>) or the decimal digits of a port number.
\<close>

record url =
  protocol :: string
  hostname :: string
  port :: "nat option"
  pathname :: string

text \<open>
  A request object returned by \<^verbatim>\<open>http.request\<close> is a new object on every call; the model
  numbers them in order of creation.  \<open>vibeRequest\<close> is the tracked slot, \<open>destroyed\<close> lists the
  requests on which \<^verbatim>\<open>destroy()\<close> was called (most recent first), and \<open>promises\<close> gives, for
  each request, how the promise holding its \<^verbatim>\<open>resolve\<close> and \<^verbatim>\<open>reject\<close> has settled
  (\<open>None\<close> while it is pending).
\<close>

record client =
  baseUrl :: string
  vibeRequest :: "nat option"
  created :: nat
  destroyed :: "nat list"
  promises :: "nat \<Rightarrow> json promise_result option"

definition TIMEOUT_MS :: nat where
  "TIMEOUT_MS = 300000"

definition HEALTH_TIMEOUT_MS :: nat where
  "HEALTH_TIMEOUT_MS = 2000"

text \<open>The constructor strips trailing slashes from the configured URL.\<close>

definition new_client :: "string \<Rightarrow> client" where
  "new_client configured =
     \<lparr>baseUrl = rev (dropWhile (\<lambda>ch. ch = CHR ''/'') (rev configured)),
      vibeRequest = None, created = 0, destroyed = [], promises = (\<lambda>req. None)\<rparr>"

text \<open>\<^verbatim>\<open>baseOverride || this._baseUrl\<close>: an absent or empty override falls back to the endpoint.\<close>

definition effective_base :: "string \<Rightarrow> string option \<Rightarrow> string" where
  "effective_base base baseOverride =
     (case baseOverride of None \<Rightarrow> base | Some b \<Rightarrow> if b = [] then base else b)"

text \<open>
  \<^verbatim>\<open>_makeRequest\<close> up to its \<^verbatim>\<open>return req\<close>: the URL constructor may throw; otherwise a new
  request exists, with its handlers attached and its promise pending.
\<close>

definition makeRequest ::
  "(string \<Rightarrow> url option) \<Rightarrow> string \<Rightarrow> string option \<Rightarrow> client \<Rightarrow> error + (nat \<times> client)" where
  "makeRequest parse_url path baseOverride c =
     (case parse_url (effective_base (baseUrl c) baseOverride @ path) of
        None \<Rightarrow> Inl TypeError
      | Some u \<Rightarrow>
          Inr (created c,
               c\<lparr>created := Suc (created c), promises := (promises c)(created c := None)\<rparr>))"

text \<open>
  \<^verbatim>\<open>_fetchTracked\<close>: when \<^verbatim>\<open>_makeRequest\<close> throws inside the promise executor the promise
  is rejected and the slot is not assigned (\<open>Inl\<close>); otherwise the slot is overwritten with
  the new request.
\<close>

definition fetchTracked ::
  "(string \<Rightarrow> url option) \<Rightarrow> string \<Rightarrow> client \<Rightarrow> (error + nat) \<times> client" where
  "fetchTracked parse_url path c =
     (case makeRequest parse_url path None c of
        Inl e \<Rightarrow> (Inl e, c)
      | Inr (req, c1) \<Rightarrow> (Inr req, c1\<lparr>vibeRequest := Some req\<rparr>))"

text \<open>\<^verbatim>\<open>if (this._vibeRequest === req) { this._vibeRequest = null; }\<close>\<close>

definition clear_if_current :: "nat \<Rightarrow> client \<Rightarrow> client" where
  "clear_if_current req c = (if vibeRequest c = Some req then c\<lparr>vibeRequest := None\<rparr> else c)"

text \<open>Calling \<^verbatim>\<open>resolve\<close> or \<^verbatim>\<open>reject\<close>: a promise settles once, later calls do nothing.\<close>

definition settle :: "nat \<Rightarrow> json promise_result \<Rightarrow> client \<Rightarrow> client" where
  "settle req r c =
     (case promises c req of
        None \<Rightarrow> c\<lparr>promises := (promises c)(req \<mapsto> r)\<rparr>
      | Some r0 \<Rightarrow> c)"

text \<open>The three handlers that \<^verbatim>\<open>_makeRequest\<close> attaches to request \<open>req\<close>.\<close>

definition on_event ::
  "(string \<Rightarrow> json option) \<Rightarrow> nat \<Rightarrow> nat \<Rightarrow> net_event \<Rightarrow> client \<Rightarrow> client" where
  "on_event parse timeoutMs req ev c =
     (case ev of
        Response statusCode data \<Rightarrow>
          settle req (response_end parse statusCode data) (clear_if_current req c)
      | ConnError msg \<Rightarrow>
          settle req (Rejected (NetworkError msg)) (clear_if_current req c)
      | Timeout \<Rightarrow>
          (let c1 = clear_if_current req c;
               c2 = c1\<lparr>destroyed := req # destroyed c1\<rparr>
           in settle req (Rejected (TimeoutError timeoutMs)) c2))"

definition abort :: "client \<Rightarrow> client" where
  "abort c =
     (case vibeRequest c of
        None \<Rightarrow> c
      | Some req \<Rightarrow> c\<lparr>destroyed := req # destroyed c, vibeRequest := None\<rparr>)"

text \<open>Every request named by the client has been created.\<close>

definition client_ok :: "client \<Rightarrow> bool" where
  "client_ok c \<longleftrightarrow>
     list_all (\<lambda>req. req < created c) (destroyed c) \<and>
     (case vibeRequest c of None \<Rightarrow> True | Some req \<Rightarrow> req < created c)"

text \<open>
  The URLs that the concrete instances below construct, as \<^verbatim>\<open>new URL\<close> reads them.  No
  other string is looked up except \<^verbatim>\<open>127.0.0.1:8420\<close> and \<^verbatim>\<open>127.0.0.1:8420/health\<close>:
  they have no scheme, \<^verbatim>\<open>new URL\<close> throws on them, and the table has no entry for them.
  \<open>dec\<close> writes a number in decimal digits, as the template literal does.
\<close>

definition digit_char :: "nat \<Rightarrow> char" where
  "digit_char d = ''0123456789'' ! d"

fun dec :: "nat \<Rightarrow> string" where
  "dec n = (if n < 10 then [digit_char n] else dec (n div 10) @ [digit_char (n mod 10)])"

declare dec.simps [simp del]

definition sample_url :: "nat \<Rightarrow> string \<Rightarrow> url" where
  "sample_url p path = \<lparr>protocol = ''http:'', hostname = ''127.0.0.1'', port = Some p, pathname = path\<rparr>"

definition sample_url_noport :: "string \<Rightarrow> url" where
  "sample_url_noport path = \<lparr>protocol = ''http:'', hostname = ''127.0.0.1'', port = None, pathname = path\<rparr>"

definition sample_urls :: "(string \<times> url) list" where
  "sample_urls =
     [(''http://127.0.0.1:8420'', sample_url 8420 ''/''),
      (''http://127.0.0.1:8420/vibe'', sample_url 8420 ''/vibe'')] @
     map (\<lambda>p. (''http://127.0.0.1:'' @ dec p @ ''/health'', sample_url p ''/health''))
       [8420 ..< 8430] @
     [(''http://127.0.0.1'', sample_url_noport ''/''),
      (''http://127.0.0.1/health'', sample_url_noport ''/health''),
      (''http://127.0.0.1:9000'', sample_url 9000 ''/''),
      (''http://127.0.0.1:9000/health'', sample_url 9000 ''/health''),
      (''http://127.0.0.1:9001/health'', sample_url 9001 ''/health''),
      (''http://127.0.0.1:9002/health'', sample_url 9002 ''/health'')]"

definition sample_parse_url :: "string \<Rightarrow> url option" where
  "sample_parse_url = map_of sample_urls"


section \<open>Health check with port discovery\<close>

text \<open>
  \<^verbatim>\<open>healthCheck\<close> awaits each probe before it issues the next, so a probe is a call that
  returns how its promise settled.  The network is the parameter \<open>net\<close>: for the host name,
  the port (\<^verbatim>\<open>url.port || 8420\<close>) and the path of a request it gives the event that the
  request meets.  \<^verbatim>\<open>_fire\<close> never assigns the tracked slot, and its requests are never the
  slot's request, so the slot plays no part here and the client is represented by its
  \<^verbatim>\<open>_baseUrl\<close> alone.
\<close>

definition fire ::
  "(string \<Rightarrow> json option) \<Rightarrow> (string \<Rightarrow> url option) \<Rightarrow> (string \<Rightarrow> nat \<Rightarrow> string \<Rightarrow> net_event) \<Rightarrow>
   nat \<Rightarrow> string \<Rightarrow> string option \<Rightarrow> string \<Rightarrow> json promise_result" where
  "fire parse parse_url net timeoutMs base baseOverride path =
     (case parse_url (effective_base base baseOverride @ path) of
        None \<Rightarrow> Rejected TypeError
      | Some u \<Rightarrow>
          event_outcome parse timeoutMs
            (net (hostname u) (case port u of None \<Rightarrow> 8420 | Some n \<Rightarrow> n) (pathname u)))"

text \<open>\<^verbatim>\<open>res.status === "ok"\<close>, which throws when \<^verbatim>\<open>res\<close> is \<^verbatim>\<open>null\<close>.\<close>

definition status_is_ok :: "json \<Rightarrow> error + bool" where
  "status_is_ok res =
     (case read_prop res ''status'' of
        Inl e \<Rightarrow> Inl e
      | Inr v \<Rightarrow> Inr (v = Some (JStr ''ok'')))"

text \<open>\<^verbatim>\<open>`${base.protocol}//${base.hostname}:${p}`\<close>\<close>

definition tryUrl :: "url \<Rightarrow> nat \<Rightarrow> string" where
  "tryUrl base p = protocol base @ ''//'' @ hostname base @ '':'' @ dec p"

text \<open>
  What one call of \<^verbatim>\<open>healthCheck\<close> leaves behind: how its promise settled (\<open>Inr\<close> a
  boolean, \<open>Inl\<close> a rejection), the value of \<^verbatim>\<open>_baseUrl\<close> afterwards, and the base URLs of
  the probes it issued, in order.
\<close>

record health_result =
  outcome :: "error + bool"
  endpoint :: string
  probed :: "string list"

text \<open>
  The body of the discovery loop, over the values that \<^verbatim>\<open>p\<close> still has to take; \<open>issued\<close>
  holds the probes issued so far.
\<close>

fun scan ::
  "(string \<Rightarrow> json option) \<Rightarrow> (string \<Rightarrow> url option) \<Rightarrow> (string \<Rightarrow> nat \<Rightarrow> string \<Rightarrow> net_event) \<Rightarrow>
   string \<Rightarrow> url \<Rightarrow> nat \<Rightarrow> nat list \<Rightarrow> string list \<Rightarrow> health_result" where
  "scan parse parse_url net baseUrl0 base basePort [] issued =
     \<lparr>outcome = Inr False, endpoint = baseUrl0, probed = issued\<rparr>"
| "scan parse parse_url net baseUrl0 base basePort (p # ps) issued =
     (if p = basePort then scan parse parse_url net baseUrl0 base basePort ps issued
      else
        (let tryU = tryUrl base p; issued1 = issued @ [tryU] in
         case fire parse parse_url net HEALTH_TIMEOUT_MS baseUrl0 (Some tryU) ''/health'' of
           Rejected e \<Rightarrow> scan parse parse_url net baseUrl0 base basePort ps issued1
         | Resolved res \<Rightarrow>
             (case status_is_ok res of
                Inl e \<Rightarrow> scan parse parse_url net baseUrl0 base basePort ps issued1
              | Inr ok \<Rightarrow>
                  if ok then \<lparr>outcome = Inr True, endpoint = tryU, probed = issued1\<rparr>
                  else scan parse parse_url net baseUrl0 base basePort ps issued1)))"

text \<open>\<^verbatim>\<open>parseInt(base.port || "8420", 10)\<close>\<close>

definition configured_port :: "url \<Rightarrow> nat" where
  "configured_port base = (case port base of None \<Rightarrow> 8420 | Some n \<Rightarrow> n)"

text \<open>The \<^verbatim>\<open>catch\<close> block of \<^verbatim>\<open>healthCheck\<close>; \<^verbatim>\<open>new URL(this._baseUrl)\<close> may throw.\<close>

definition discover ::
  "(string \<Rightarrow> json option) \<Rightarrow> (string \<Rightarrow> url option) \<Rightarrow> (string \<Rightarrow> nat \<Rightarrow> string \<Rightarrow> net_event) \<Rightarrow>
   string \<Rightarrow> health_result" where
  "discover parse parse_url net baseUrl0 =
     (case parse_url baseUrl0 of
        None \<Rightarrow> \<lparr>outcome = Inl TypeError, endpoint = baseUrl0, probed = [baseUrl0]\<rparr>
      | Some base \<Rightarrow>
          (let basePort = configured_port base in
           scan parse parse_url net baseUrl0 base basePort [basePort ..< basePort + 10]
             [baseUrl0]))"

definition healthCheck ::
  "(string \<Rightarrow> json option) \<Rightarrow> (string \<Rightarrow> url option) \<Rightarrow> (string \<Rightarrow> nat \<Rightarrow> string \<Rightarrow> net_event) \<Rightarrow>
   string \<Rightarrow> health_result" where
  "healthCheck parse parse_url net baseUrl0 =
     (case fire parse parse_url net HEALTH_TIMEOUT_MS baseUrl0 None ''/health'' of
        Rejected e \<Rightarrow> discover parse parse_url net baseUrl0
      | Resolved res \<Rightarrow>
          (case status_is_ok res of
             Inl e \<Rightarrow> discover parse parse_url net baseUrl0
           | Inr ok \<Rightarrow> \<lparr>outcome = Inr ok, endpoint = baseUrl0, probed = [baseUrl0]\<rparr>))"

text \<open>
  The words of the claims about a single probe against base URL \<open>target\<close>: it reports an
  ok status; it fails with an error (its promise rejects, or reading the status throws).
\<close>

definition probe_ok ::
  "(string \<Rightarrow> json option) \<Rightarrow> (string \<Rightarrow> url option) \<Rightarrow> (string \<Rightarrow> nat \<Rightarrow> string \<Rightarrow> net_event) \<Rightarrow>
   string \<Rightarrow> bool" where
  "probe_ok parse parse_url net target =
     (case fire parse parse_url net HEALTH_TIMEOUT_MS target None ''/health'' of
        Rejected e \<Rightarrow> False
      | Resolved res \<Rightarrow> (case status_is_ok res of Inl e \<Rightarrow> False | Inr ok \<Rightarrow> ok))"

definition probe_throws ::
  "(string \<Rightarrow> json option) \<Rightarrow> (string \<Rightarrow> url option) \<Rightarrow> (string \<Rightarrow> nat \<Rightarrow> string \<Rightarrow> net_event) \<Rightarrow>
   string \<Rightarrow> bool" where
  "probe_throws parse parse_url net target =
     (case fire parse parse_url net HEALTH_TIMEOUT_MS target None ''/health'' of
        Rejected e \<Rightarrow> True
      | Resolved res \<Rightarrow> (case status_is_ok res of Inl e \<Rightarrow> True | Inr ok \<Rightarrow> False))"


text \<open>
  Sample networks: \<open>sample_net l\<close> answers the health probe on port \<open>l\<close> alone and refuses
  every other connection; \<open>starting_net\<close> answers on every port, with a status other than
  ok on port 8420.
\<close>

definition sample_net :: "nat \<Rightarrow> string \<Rightarrow> nat \<Rightarrow> string \<Rightarrow> net_event" where
  "sample_net listening host p path =
     (if p = listening then Response (Some 200) ''{\"status\":\"ok\"}''
      else ConnError ''ECONNREFUSED'')"

definition starting_net :: "string \<Rightarrow> nat \<Rightarrow> string \<Rightarrow> net_event" where
  "starting_net host p path =
     (if p = 8420 then Response (Some 200) ''{\"status\":\"starting\"}''
      else Response (Some 200) ''{\"status\":\"ok\"}'')"

section \<open>Stream ingester of \<^verbatim>\<open>pullModel\<close>\<close>

text \<open>
  \<^verbatim>\<open>s.split("\n\n")\<close>: the pieces of \<open>s\<close> between successive occurrences of two line
  feeds, found from left to right; the result is never empty.  \<open>cons_first c\<close> puts \<open>c\<close> in
  front of the first piece.
\<close>

definition cons_first :: "char \<Rightarrow> string list \<Rightarrow> string list" where
  "cons_first c pieces = (case pieces of [] \<Rightarrow> [[c]] | u # us \<Rightarrow> (c # u) # us)"

fun split_blank :: "string \<Rightarrow> string list" where
  "split_blank [] = [[]]"
| "split_blank [c] = [[c]]"
| "split_blank (c # d # rest) =
     (if c = CHR 0x0A \<and> d = CHR 0x0A then [] # split_blank rest
      else cons_first c (split_blank (d # rest)))"

text \<open>
  \<^verbatim>\<open>s.trim()\<close> removes white space and line terminators at both ends; among the 8-bit
  code units these are tab, line feed, vertical tab, form feed, carriage return, space and
  the no-break space.
\<close>

definition js_space :: "char \<Rightarrow> bool" where
  "js_space ch =
     (ch = CHR 0x09 \<or> ch = CHR 0x0A \<or> ch = CHR 0x0B \<or> ch = CHR 0x0C \<or> ch = CHR 0x0D \<or>
      ch = CHR 0x20 \<or> ch = CHR 0xA0)"

definition trim :: "string \<Rightarrow> string" where
  "trim s = rev (dropWhile js_space (rev (dropWhile js_space s)))"

text \<open>
  The variables of the response callback, and the calls of \<^verbatim>\<open>onProgress\<close> made so far.
  \<^verbatim>\<open>lastStatus\<close> starts as the empty string and is then whatever \<^verbatim>\<open>data.status || ""\<close>
  yields, which need not be a string.  The sink is a recorder: it returns normally.  A
  chunk is the text \<^verbatim>\<open>chunk.toString()\<close>.
\<close>

record pull =
  lastStatus :: json
  buffer :: string
  progress :: "(rat \<times> json) list"

definition pull_start :: pull where
  "pull_start = \<lparr>lastStatus = JStr [], buffer = [], progress = []\<rparr>"

text \<open>The body of the loop over the complete blocks; \<open>sink\<close> tells whether \<^verbatim>\<open>onProgress\<close> was passed.\<close>

definition on_block :: "(string \<Rightarrow> json option) \<Rightarrow> bool \<Rightarrow> string \<Rightarrow> pull \<Rightarrow> pull" where
  "on_block parse sink block st =
     (let line = trim block in
      if take 6 line \<noteq> ''data: '' then st
      else
        (case parse (drop 6 line) of
           None \<Rightarrow> st
         | Some data \<Rightarrow>
             (case read_prop data ''status'' of
                Inl e \<Rightarrow> st
              | Inr s \<Rightarrow>
                  (let st1 = st\<lparr>lastStatus := or_else s (JStr [])\<rparr> in
                   if sink then
                     (case read_prop data ''pct'' of
                        Inr (Some (JNum n)) \<Rightarrow>
                          st1\<lparr>progress := progress st1 @ [(n, lastStatus st1)]\<rparr>
                      | _ \<Rightarrow> st1)
                   else st1))))"

text \<open>The \<^verbatim>\<open>data\<close> handler: \<^verbatim>\<open>lines.pop() || ""\<close> is the last piece, the rest are the blocks.\<close>

definition on_data :: "(string \<Rightarrow> json option) \<Rightarrow> bool \<Rightarrow> string \<Rightarrow> pull \<Rightarrow> pull" where
  "on_data parse sink chunk st =
     (let pieces = split_blank (buffer st @ chunk);
          rest = (if pieces = [] then [] else last pieces);
          lines = butlast pieces
      in fold (on_block parse sink) lines (st\<lparr>buffer := rest\<rparr>))"

text \<open>The object that \<^verbatim>\<open>pullModel\<close> resolves to.\<close>

record pull_outcome =
  out_status :: string
  out_model :: "string option"
  out_message :: "string option"

text \<open>The \<^verbatim>\<open>end\<close> handler.\<close>

definition on_end :: "string \<Rightarrow> pull \<Rightarrow> pull_outcome" where
  "on_end requested st =
     (if lastStatus st = JStr ''done'' \<or> lastStatus st = JStr ''success''
      then \<lparr>out_status = ''ok'', out_model = Some requested, out_message = None\<rparr>
      else if lastStatus st = JStr ''error''
      then \<lparr>out_status = ''error'', out_model = None, out_message = Some ''Pull failed''\<rparr>
      else \<lparr>out_status = ''ok'', out_model = Some requested, out_message = None\<rparr>)"

text \<open>A pull whose response delivers the chunks \<open>chunks\<close> in this order and then ends.\<close>

definition ingest :: "(string \<Rightarrow> json option) \<Rightarrow> bool \<Rightarrow> string list \<Rightarrow> pull" where
  "ingest parse sink chunks = fold (on_data parse sink) chunks pull_start"

definition pullModel ::
  "(string \<Rightarrow> json option) \<Rightarrow> bool \<Rightarrow> string \<Rightarrow> string list \<Rightarrow> pull_outcome" where
  "pullModel parse sink requested chunks = on_end requested (ingest parse sink chunks)"

text \<open>
  The words of the claims about a stream, the concatenation of its chunks.  Its complete
  units are the pieces in front of a blank line.  A unit is decodable when, trimmed, it
  starts with \<^verbatim>\<open>data: \<close> and the remainder parses to a JSON value other than \<^verbatim>\<open>null\<close>
  (reading a field of \<^verbatim>\<open>null\<close> throws, and the unit is discarded like one that does not
  parse).  The status of a decoded unit is its truthy \<^verbatim>\<open>status\<close> field, by default the empty
  string; its progress event exists when its \<^verbatim>\<open>pct\<close> field is a number.
\<close>

definition complete_units :: "string \<Rightarrow> string list" where
  "complete_units stream = butlast (split_blank stream)"

definition decode :: "(string \<Rightarrow> json option) \<Rightarrow> string \<Rightarrow> json option" where
  "decode parse unit =
     (if take 6 (trim unit) = ''data: '' then
        (case parse (drop 6 (trim unit)) of
           None \<Rightarrow> None
         | Some d \<Rightarrow> if d = JNull then None else Some d)
      else None)"

definition decoded_units :: "(string \<Rightarrow> json option) \<Rightarrow> string \<Rightarrow> json list" where
  "decoded_units parse stream = List.map_filter (decode parse) (complete_units stream)"

definition unit_status :: "json \<Rightarrow> json" where
  "unit_status d =
     (case d of
        JObj kvs \<Rightarrow> (case map_of kvs ''status'' of None \<Rightarrow> JStr [] | Some s \<Rightarrow> if truthy s then s else JStr [])
      | _ \<Rightarrow> JStr [])"

definition unit_progress :: "json \<Rightarrow> (rat \<times> json) list" where
  "unit_progress d =
     (case d of
        JObj kvs \<Rightarrow> (case map_of kvs ''pct'' of Some (JNum n) \<Rightarrow> [(n, unit_status d)] | _ \<Rightarrow> [])
      | _ \<Rightarrow> [])"

definition last_known_status :: "(string \<Rightarrow> json option) \<Rightarrow> string \<Rightarrow> json" where
  "last_known_status parse stream =
     (case rev (decoded_units parse stream) of [] \<Rightarrow> JStr [] | d # ds \<Rightarrow> unit_status d)"

text \<open>The two chunks of a sample delivery, the first ending in the middle of a unit.\<close>

definition sample_chunk1 :: string where
  "sample_chunk1 = ''data: {\"pct\":10,\"status\":\"run''"

definition sample_chunk2 :: string where
  "sample_chunk2 =
     ''ning\"}'' @ [CHR 0x0A, CHR 0x0A] @ ''data: {\"status\":\"done\"}'' @ [CHR 0x0A, CHR 0x0A]"

definition sample_error_stream :: string where
  "sample_error_stream =
     ''data: {\"pct\":10,\"status\":\"running\"}'' @ [CHR 0x0A, CHR 0x0A] @
     ''data: {\"status\":\"error\"}'' @ [CHR 0x0A, CHR 0x0A] @ ''data: {\"status\":\"do''"


text \<open>The client after one, and after two, tracked exchanges started on a new client.\<close>

definition fst_tracked :: client where
  "fst_tracked =
     \<lparr>baseUrl = ''http://127.0.0.1:8420'', vibeRequest = Some 0, created = 1,
      destroyed = [], promises = (\<lambda>req. None)\<rparr>"

definition snd_tracked :: client where
  "snd_tracked =
     \<lparr>baseUrl = ''http://127.0.0.1:8420'', vibeRequest = Some 1, created = 2,
      destroyed = [], promises = (\<lambda>req. None)\<rparr>"


lemma run_checks_snoc: "run_checks (oks @ [ok]) m = doHealthCheck ok (run_checks oks m)"
  by (simp add: run_checks_def)

lemma failures_since_success_snoc:
  "failures_since_success (oks @ [ok]) = (if ok then 0 else Suc (failures_since_success oks))"
  by (simp add: failures_since_success_def)

lemma run_checks_invariant:
  "failCount (run_checks oks initial_monitor) = failures_since_success oks \<and>
   (wasOnline (run_checks oks initial_monitor) \<longleftrightarrow>
      True \<in> set oks \<and> failures_since_success oks < 3)"
proof (induction oks rule: rev_induct)
  case Nil
  show ?case
    by (simp add: run_checks_def initial_monitor_def failures_since_success_def)
next
  case (snoc ok oks)
  then show ?case
    by (cases ok)
       (auto simp: run_checks_snoc failures_since_success_snoc doHealthCheck_def
          MAX_FAILS_def Let_def)
qed

text \<open>
  Claim C1.  Let \<open>m\<close> be the monitor after any finite sequence \<open>oks\<close> of probe outcomes,
  started Offline with a failure counter of 0.  The counter equals the number of failures
  since the last success; the monitor is Online exactly when some probe has succeeded and
  fewer than 3 failures followed the last success; while Online, one more failure flips
  the state to Offline exactly when that failure is the 3rd consecutive one; from Offline a
  single success flips the state to Online whatever the counter is; and every success
  resets the counter to 0.
\<close>

theorem hysteresis_three_failures:
  "failCount (run_checks oks initial_monitor) = failures_since_success oks \<and>
   (wasOnline (run_checks oks initial_monitor) \<longleftrightarrow>
      True \<in> set oks \<and> failures_since_success oks < 3) \<and>
   (wasOnline (run_checks oks initial_monitor) \<longrightarrow>
      (\<not> wasOnline (doHealthCheck False (run_checks oks initial_monitor))) =
      (failures_since_success (oks @ [False]) = 3)) \<and>
   (\<not> wasOnline (run_checks oks initial_monitor) \<longrightarrow>
      wasOnline (doHealthCheck True (run_checks oks initial_monitor))) \<and>
   failCount (doHealthCheck True (run_checks oks initial_monitor)) = 0"
proof -
  let ?m = "run_checks oks initial_monitor"
  have inv: "failCount ?m = failures_since_success oks"
    "wasOnline ?m \<longleftrightarrow> True \<in> set oks \<and> failures_since_success oks < 3"
    using run_checks_invariant [of oks] by simp_all
  have flip: "wasOnline ?m \<longrightarrow>
      (\<not> wasOnline (doHealthCheck False ?m)) = (failures_since_success (oks @ [False]) = 3)"
    using inv by (auto simp: doHealthCheck_def MAX_FAILS_def Let_def failures_since_success_snoc)
  have up: "\<not> wasOnline ?m \<longrightarrow> wasOnline (doHealthCheck True ?m)"
    by (simp add: doHealthCheck_def Let_def)
  have reset: "failCount (doHealthCheck True ?m) = 0"
    by (simp add: doHealthCheck_def Let_def)
  from inv flip up reset show ?thesis by blast
qed

theorem hysteresis_three_failures_witness:
  "wasOnline (run_checks [True, False, False] initial_monitor) \<and>
   \<not> wasOnline (doHealthCheck False (run_checks [True, False, False] initial_monitor)) \<and>
   failures_since_success ([True, False, False] @ [False]) = 3 \<and>
   \<not> wasOnline (run_checks [False, False, False, False] initial_monitor) \<and>
   wasOnline (doHealthCheck True (run_checks [False, False, False, False] initial_monitor))"
  using hysteresis_three_failures [of "[True, False, False]"]
    hysteresis_three_failures [of "[False, False, False, False]"]
  by (simp add: failures_since_success_def)


section \<open>Response classification\<close>

lemma detail_of_parsed:
  "(case read_prop p ''detail'' of Inl e \<Rightarrow> d0 | Inr d \<Rightarrow> or_else d d0) =
   (case (case Some p of
            Some (JObj kvs) \<Rightarrow>
              (case map_of kvs ''detail'' of
                 Some d \<Rightarrow> if truthy d then Some d else None
               | None \<Rightarrow> None)
          | _ \<Rightarrow> None) of
      Some d \<Rightarrow> d | None \<Rightarrow> d0)"
  by (cases p) (simp_all add: or_else_def split: option.splits)

lemma response_end_remote:
  "400 \<le> status \<Longrightarrow>
   response_end parse (Some status) data =
     Rejected (RemoteError status
       (case body_detail parse data of Some d \<Rightarrow> d | None \<Rightarrow> JStr (take 300 data)))"
proof (cases "parse data")
  case None
  assume "400 \<le> status"
  with None show ?thesis
    by (simp add: response_end_def body_detail_def)
next
  case (Some p)
  assume "400 \<le> status"
  with Some show ?thesis
    by (simp add: response_end_def body_detail_def Let_def detail_of_parsed)
qed

lemma sample_parse_values:
  "sample_parse ''{\"detail\":\"not found\"}'' = Some (JObj [(''detail'', JStr ''not found'')])"
  "sample_parse ''{\"detail\":\"\"}'' = Some (JObj [(''detail'', JStr '''')])"
  "sample_parse ''{\"detail\":true}'' = Some (JObj [(''detail'', JBool True)])"
  "sample_parse ''{\"status\":\"ok\"}'' = Some (JObj [(''status'', JStr ''ok'')])"
  "sample_parse ''{\"status\":\"starting\"}'' = Some (JObj [(''status'', JStr ''starting'')])"
  "sample_parse ''{\"pct\":10,\"status\":\"running\"}'' =
     Some (JObj [(''pct'', JNum 10), (''status'', JStr ''running'')])"
  "sample_parse ''{\"status\":\"done\"}'' = Some (JObj [(''status'', JStr ''done'')])"
  "sample_parse ''{\"status\":\"error\"}'' = Some (JObj [(''status'', JStr ''error'')])"
  "sample_parse ''null'' = Some JNull"
  "sample_parse sample_garbage = None"
  by (simp_all add: sample_parse_def sample_json_def sample_garbage_def)

lemma sample_garbage_short:
  "take 300 sample_garbage = sample_garbage" "take 200 sample_garbage = sample_garbage"
  by (simp_all add: sample_garbage_def)

text \<open>
  Claim C6 as stated fails.  With status 404 and the body \<^verbatim>\<open>{"detail":""}\<close>, which parses
  as JSON containing a detail string, the error does not carry that (empty) string but the
  raw body; with status 422 and the body \<^verbatim>\<open>{"detail":true}\<close>, which contains no detail
  string, the error does not carry the raw body but the value \<^verbatim>\<open>true\<close>.
\<close>

theorem response_classification_counterexample:
  "sample_parse ''{\"detail\":\"\"}'' = Some (JObj [(''detail'', JStr '''')]) \<and>
   response_end sample_parse (Some 404) ''{\"detail\":\"\"}'' =
     Rejected (RemoteError 404 (JStr ''{\"detail\":\"\"}'')) \<and>
   response_end sample_parse (Some 404) ''{\"detail\":\"\"}'' \<noteq>
     Rejected (RemoteError 404 (JStr '''')) \<and>
   sample_parse ''{\"detail\":true}'' = Some (JObj [(''detail'', JBool True)]) \<and>
   response_end sample_parse (Some 422) ''{\"detail\":true}'' =
     Rejected (RemoteError 422 (JBool True)) \<and>
   response_end sample_parse (Some 422) ''{\"detail\":true}'' \<noteq>
     Rejected (RemoteError 422 (JStr (take 300 ''{\"detail\":true}'')))"
  by (simp add: response_end_def sample_parse_values or_else_def)

text \<open>
  Claim C6, amended.  A response with status code at least 400 yields a remote error that
  carries the status and, as its detail, the \<^verbatim>\<open>detail\<close> value of the body whenever the
  body parses as a JSON object whose \<^verbatim>\<open>detail\<close> is truthy (in particular every non-empty
  detail string), and otherwise the first 300 characters of the raw body.  A response with
  status below 400 whose body fails to parse yields an invalid-response error carrying the
  first 200 characters of the raw body, and one whose body parses resolves to the parsed
  value.
\<close>

theorem response_classification:
  "(400 \<le> status \<longrightarrow>
      response_end parse (Some status) data =
        Rejected (RemoteError status
          (case body_detail parse data of Some d \<Rightarrow> d | None \<Rightarrow> JStr (take 300 data)))) \<and>
   (400 \<le> status \<and> parse data = Some (JObj kvs) \<and> map_of kvs ''detail'' = Some (JStr s) \<and> s \<noteq> [] \<longrightarrow>
      response_end parse (Some status) data = Rejected (RemoteError status (JStr s))) \<and>
   (400 \<le> status \<and> parse data = None \<longrightarrow>
      response_end parse (Some status) data =
        Rejected (RemoteError status (JStr (take 300 data)))) \<and>
   (status < 400 \<and> parse data = None \<longrightarrow>
      response_end parse (Some status) data =
        Rejected (InvalidResponseError (take 200 data))) \<and>
   (status < 400 \<and> parse data = Some v \<longrightarrow>
      response_end parse (Some status) data = Resolved v)"
proof -
  have remote: "400 \<le> status \<longrightarrow>
      response_end parse (Some status) data =
        Rejected (RemoteError status
          (case body_detail parse data of Some d \<Rightarrow> d | None \<Rightarrow> JStr (take 300 data)))"
    using response_end_remote [of status parse data] by blast
  have str: "400 \<le> status \<and> parse data = Some (JObj kvs) \<and>
      map_of kvs ''detail'' = Some (JStr s) \<and> s \<noteq> [] \<longrightarrow>
      response_end parse (Some status) data = Rejected (RemoteError status (JStr s))"
    using remote by (simp add: body_detail_def)
  have raw: "400 \<le> status \<and> parse data = None \<longrightarrow>
      response_end parse (Some status) data =
        Rejected (RemoteError status (JStr (take 300 data)))"
    using remote by (simp add: body_detail_def)
  have invalid: "status < 400 \<and> parse data = None \<longrightarrow>
      response_end parse (Some status) data =
        Rejected (InvalidResponseError (take 200 data))"
    by (simp add: response_end_def)
  have ok: "status < 400 \<and> parse data = Some v \<longrightarrow>
      response_end parse (Some status) data = Resolved v"
    by (simp add: response_end_def)
  from remote str raw invalid ok show ?thesis by blast
qed

theorem response_classification_witness:
  "response_end sample_parse (Some 404) ''{\"detail\":\"not found\"}'' =
     Rejected (RemoteError 404 (JStr ''not found'')) \<and>
   response_end sample_parse (Some 500) sample_garbage =
     Rejected (RemoteError 500 (JStr sample_garbage)) \<and>
   response_end sample_parse (Some 200) sample_garbage =
     Rejected (InvalidResponseError sample_garbage) \<and>
   response_end sample_parse (Some 200) ''{\"status\":\"ok\"}'' =
     Resolved (JObj [(''status'', JStr ''ok'')])"
  using
    response_classification [of 404 sample_parse "''{\"detail\":\"not found\"}''"
      "[(''detail'', JStr ''not found'')]" "''not found''" JNull]
    response_classification [of 500 sample_parse sample_garbage "[]" "''x''" JNull]
    response_classification [of 200 sample_parse sample_garbage "[]" "''x''" JNull]
    response_classification [of 200 sample_parse "''{\"status\":\"ok\"}''" "[]" "''x''"
      "JObj [(''status'', JStr ''ok'')]"]
  by (simp add: sample_parse_values sample_garbage_short body_detail_def)


section \<open>The tracked slot\<close>

lemma client_ok_new: "client_ok (new_client configured)"
  by (simp add: client_ok_def new_client_def)

lemma fetchTracked_Inr:
  assumes "fetchTracked parse_url path c = (Inr req, c1)"
  shows "req = created c" and
    "c1 = c\<lparr>created := Suc (created c), promises := (promises c)(created c := None),
            vibeRequest := Some (created c)\<rparr>"
  using assms
  by (auto simp: fetchTracked_def makeRequest_def split: option.splits)

lemma vibeRequest_settle [simp]: "vibeRequest (settle req r c) = vibeRequest c"
  by (simp add: settle_def split: option.splits)

lemma destroyed_settle [simp]: "destroyed (settle req r c) = destroyed c"
  by (simp add: settle_def split: option.splits)

lemma vibeRequest_on_event:
  "vibeRequest (on_event parse timeoutMs req ev c) =
     (if vibeRequest c = Some req then None else vibeRequest c)"
  by (cases ev) (simp_all add: on_event_def clear_if_current_def Let_def)

lemma promises_on_event_pending:
  "promises c req = None \<Longrightarrow>
   promises (on_event parse timeoutMs req ev c) req = Some (event_outcome parse timeoutMs ev)"
  by (cases ev)
     (simp_all add: on_event_def event_outcome_def settle_def clear_if_current_def Let_def)

text \<open>
  Claim C9.  Calling \<^verbatim>\<open>abort()\<close> while the tracked slot is empty changes nothing (and the
  function has no failing branch); while the slot holds a request, that request is destroyed
  and the slot is empty afterwards, the endpoint and every promise being left as they were.
\<close>

theorem abort_idle_noop:
  "(vibeRequest c = None \<longrightarrow> abort c = c) \<and>
   (vibeRequest c = Some req \<longrightarrow>
      vibeRequest (abort c) = None \<and>
      destroyed (abort c) = req # destroyed c \<and>
      promises (abort c) = promises c \<and>
      baseUrl (abort c) = baseUrl c \<and>
      created (abort c) = created c)"
  by (simp add: abort_def)

theorem abort_idle_noop_witness:
  "vibeRequest (new_client ''http://127.0.0.1:8420/'') = None \<and>
   abort (new_client ''http://127.0.0.1:8420/'') = new_client ''http://127.0.0.1:8420/'' \<and>
   vibeRequest (snd (fetchTracked sample_parse_url ''/vibe'' (new_client ''http://127.0.0.1:8420/''))) = Some 0 \<and>
   vibeRequest (abort (snd (fetchTracked sample_parse_url ''/vibe'' (new_client ''http://127.0.0.1:8420/'')))) = None \<and>
   destroyed (abort (snd (fetchTracked sample_parse_url ''/vibe'' (new_client ''http://127.0.0.1:8420/'')))) = [0]"
proof -
  let ?c = "new_client ''http://127.0.0.1:8420/''"
  let ?c1 = "snd (fetchTracked sample_parse_url ''/vibe'' ?c)"
  have idle: "vibeRequest ?c = None"
    by (simp add: new_client_def)
  have url: "sample_parse_url ''http://127.0.0.1:8420/vibe'' = Some (sample_url 8420 ''/vibe'')"
    by (simp add: sample_parse_url_def sample_urls_def)
  have slot: "vibeRequest ?c1 = Some 0" and none: "destroyed ?c1 = []"
    using url
    by (simp_all add: fetchTracked_def makeRequest_def effective_base_def new_client_def)
  from idle slot none abort_idle_noop [of ?c 0] abort_idle_noop [of ?c1 0]
  show ?thesis by simp
qed


lemma second_tracked_start:
  assumes ok: "client_ok c"
    and first: "fetchTracked parse_url path1 c = (Inr req1, c1)"
    and second: "fetchTracked parse_url path2 c1 = (Inr req2, c2)"
  shows "req1 = created c" and "req2 = Suc (created c)"
    and "vibeRequest c2 = Some req2" and "destroyed c2 = destroyed c"
    and "promises c2 req1 = None" and "req1 \<notin> set (destroyed c)"
proof -
  from fetchTracked_Inr [OF first] have r1: "req1 = created c"
    and c1: "c1 = c\<lparr>created := Suc (created c), promises := (promises c)(created c := None),
                     vibeRequest := Some (created c)\<rparr>"
    by simp_all
  from fetchTracked_Inr [OF second] have r2: "req2 = created c1"
    and c2: "c2 = c1\<lparr>created := Suc (created c1), promises := (promises c1)(created c1 := None),
                      vibeRequest := Some (created c1)\<rparr>"
    by simp_all
  show "req1 = created c" by (rule r1)
  show "req2 = Suc (created c)" using r2 c1 by simp
  show "vibeRequest c2 = Some req2" using r2 c2 by simp
  show "destroyed c2 = destroyed c" using c1 c2 by simp
  show "promises c2 req1 = None" using r1 c1 c2 by simp
  from ok have "\<forall>req \<in> set (destroyed c). req < created c"
    by (simp add: client_ok_def list_all_iff)
  then show "req1 \<notin> set (destroyed c)" using r1 by auto
qed

text \<open>
  Claim C5.  Let a second tracked exchange \<open>req2\<close> be started while the first, \<open>req1\<close>, is
  still pending.  Starting the second neither destroys nor settles the first, and the slot
  holds the second alone.  A cancel at that point destroys the second only and leaves the
  promise of the first pending.  Whatever event then completes the first (a response of any
  status, a network error or a timeout), its own promise settles with the outcome of that
  event and the slot still holds the second.  In every state, the completion of a request
  empties the slot if the slot holds that very request and leaves the slot as it is
  otherwise.
\<close>

theorem tracked_slot_overwrite:
  assumes "client_ok c"
    and "fetchTracked parse_url path1 c = (Inr req1, c1)"
    and "fetchTracked parse_url path2 c1 = (Inr req2, c2)"
  shows "req1 \<noteq> req2 \<and>
    vibeRequest c2 = Some req2 \<and>
    req1 \<notin> set (destroyed c2) \<and>
    promises c2 req1 = None \<and>
    vibeRequest (abort c2) = None \<and>
    destroyed (abort c2) = req2 # destroyed c \<and>
    req1 \<notin> set (destroyed (abort c2)) \<and>
    promises (abort c2) req1 = None \<and>
    (\<forall>ev. vibeRequest (on_event parse TIMEOUT_MS req1 ev c2) = Some req2 \<and>
          promises (on_event parse TIMEOUT_MS req1 ev c2) req1 =
            Some (event_outcome parse TIMEOUT_MS ev)) \<and>
    (\<forall>c' req ev. vibeRequest (on_event parse TIMEOUT_MS req ev c') =
          (if vibeRequest c' = Some req then None else vibeRequest c'))"
proof -
  note s = second_tracked_start [OF assms]
  have distinct: "req1 \<noteq> req2" using s(1,2) by simp
  have slot: "vibeRequest c2 = Some req2" by (rule s(3))
  have alive: "req1 \<notin> set (destroyed c2)" using s(4,6) by simp
  have pending: "promises c2 req1 = None" by (rule s(5))
  have cancel: "vibeRequest (abort c2) = None"
    "destroyed (abort c2) = req2 # destroyed c"
    "promises (abort c2) req1 = None"
    using slot s(4) pending by (simp_all add: abort_def)
  have spared: "req1 \<notin> set (destroyed (abort c2))"
    using cancel(2) distinct s(6) by simp
  have completes: "\<forall>ev. vibeRequest (on_event parse TIMEOUT_MS req1 ev c2) = Some req2 \<and>
          promises (on_event parse TIMEOUT_MS req1 ev c2) req1 =
            Some (event_outcome parse TIMEOUT_MS ev)"
    using slot distinct pending
    by (simp add: vibeRequest_on_event promises_on_event_pending)
  have guard: "\<forall>c' req ev. vibeRequest (on_event parse TIMEOUT_MS req ev c') =
          (if vibeRequest c' = Some req then None else vibeRequest c')"
    by (simp add: vibeRequest_on_event)
  from distinct slot alive pending cancel spared completes guard show ?thesis
    by blast
qed

theorem tracked_slot_overwrite_witness:
  "fetchTracked sample_parse_url ''/vibe'' (new_client ''http://127.0.0.1:8420/'') =
     (Inr 0, fst_tracked) \<and>
   fetchTracked sample_parse_url ''/vibe'' fst_tracked = (Inr 1, snd_tracked) \<and>
   vibeRequest snd_tracked = Some 1 \<and>
   destroyed (abort snd_tracked) = [1] \<and>
   vibeRequest (on_event sample_parse TIMEOUT_MS 0 (Response (Some 200) ''{\"status\":\"ok\"}'') snd_tracked) = Some 1 \<and>
   promises (on_event sample_parse TIMEOUT_MS 0 (Response (Some 200) ''{\"status\":\"ok\"}'') snd_tracked) 0 =
     Some (Resolved (JObj [(''status'', JStr ''ok'')]))"
proof -
  have url: "sample_parse_url ''http://127.0.0.1:8420/vibe'' = Some (sample_url 8420 ''/vibe'')"
    by (simp add: sample_parse_url_def sample_urls_def)
  have first: "fetchTracked sample_parse_url ''/vibe'' (new_client ''http://127.0.0.1:8420/'') =
     (Inr 0, fst_tracked)"
    using url
    by (simp add: fetchTracked_def makeRequest_def effective_base_def new_client_def
        fst_tracked_def)
  have second: "fetchTracked sample_parse_url ''/vibe'' fst_tracked = (Inr 1, snd_tracked)"
    using url
    by (simp add: fetchTracked_def makeRequest_def effective_base_def fst_tracked_def
        snd_tracked_def)
  have none: "destroyed (new_client ''http://127.0.0.1:8420/'') = []"
    by (simp add: new_client_def)
  from tracked_slot_overwrite [OF client_ok_new first second, of sample_parse] none first second
  show ?thesis
    by (simp add: event_outcome_def response_end_def sample_parse_values)
qed


section \<open>Port discovery\<close>


lemma tryUrl_nonempty: "tryUrl base p \<noteq> []"
  by (simp add: tryUrl_def)

lemma fire_override:
  "fire parse parse_url net t b (Some (tryUrl base p)) path =
   fire parse parse_url net t (tryUrl base p) None path"
  by (simp add: fire_def effective_base_def tryUrl_nonempty)

lemma scan_Cons:
  "scan parse parse_url net b base basePort (p # ps) issued =
     (if p = basePort then scan parse parse_url net b base basePort ps issued
      else if probe_ok parse parse_url net (tryUrl base p)
      then \<lparr>outcome = Inr True, endpoint = tryUrl base p, probed = issued @ [tryUrl base p]\<rparr>
      else scan parse parse_url net b base basePort ps (issued @ [tryUrl base p]))"
  by (simp add: probe_ok_def fire_override Let_def split: promise_result.split sum.split)

lemma scan_none:
  "\<forall>p \<in> set ps. p \<noteq> basePort \<longrightarrow> \<not> probe_ok parse parse_url net (tryUrl base p) \<Longrightarrow>
   scan parse parse_url net b base basePort ps issued =
     \<lparr>outcome = Inr False, endpoint = b,
      probed = issued @ map (tryUrl base) (filter (\<lambda>p. p \<noteq> basePort) ps)\<rparr>"
proof (induction ps arbitrary: issued)
  case Nil
  show ?case by simp
next
  case (Cons p ps)
  then show ?case
    by (simp add: scan_Cons del: scan.simps)
qed

lemma scan_first:
  "\<forall>p \<in> set xs. p \<noteq> basePort \<longrightarrow> \<not> probe_ok parse parse_url net (tryUrl base p) \<Longrightarrow>
   q \<noteq> basePort \<Longrightarrow> probe_ok parse parse_url net (tryUrl base q) \<Longrightarrow>
   scan parse parse_url net b base basePort (xs @ q # ys) issued =
     \<lparr>outcome = Inr True, endpoint = tryUrl base q,
      probed = issued @ map (tryUrl base) (filter (\<lambda>p. p \<noteq> basePort) xs) @ [tryUrl base q]\<rparr>"
proof (induction xs arbitrary: issued)
  case Nil
  then show ?case
    by (simp add: scan_Cons del: scan.simps)
next
  case (Cons p xs)
  then show ?case
    by (simp add: scan_Cons del: scan.simps)
qed

lemma healthCheck_throws:
  "probe_throws parse parse_url net b \<Longrightarrow>
   healthCheck parse parse_url net b = discover parse parse_url net b"
  by (simp add: healthCheck_def probe_throws_def split: promise_result.splits sum.splits)

lemma healthCheck_no_throw:
  "\<not> probe_throws parse parse_url net b \<Longrightarrow>
   healthCheck parse parse_url net b =
     \<lparr>outcome = Inr (probe_ok parse parse_url net b), endpoint = b, probed = [b]\<rparr>"
  by (simp add: healthCheck_def probe_throws_def probe_ok_def
      split: promise_result.splits sum.splits)

lemma ports_split:
  "1 \<le> k \<Longrightarrow> k \<le> 9 \<Longrightarrow>
   [c ..< c + 10] = (c # [c + 1 ..< c + k]) @ (c + k) # [c + k + 1 ..< c + 10]"
proof -
  assume k: "1 \<le> k" "k \<le> (9::nat)"
  have "[c ..< c + k + (10 - k)] = [c ..< c + k] @ [c + k ..< c + k + (10 - k)]"
    by (rule upt_add_eq_append) simp
  then have "[c ..< c + 10] = [c ..< c + k] @ [c + k ..< c + 10]"
    using k by simp
  moreover have "[c ..< c + k] = c # [c + 1 ..< c + k]"
    using k by (simp add: upt_conv_Cons)
  moreover have "[c + k ..< c + 10] = (c + k) # [c + k + 1 ..< c + 10]"
    using k by (simp add: upt_conv_Cons)
  ultimately show ?thesis by simp
qed

lemma discover_first:
  assumes url: "parse_url b = Some base"
    and k: "1 \<le> k" "k \<le> 9"
    and before: "\<forall>q \<in> set [configured_port base + 1 ..< configured_port base + k].
        \<not> probe_ok parse parse_url net (tryUrl base q)"
    and hit: "probe_ok parse parse_url net (tryUrl base (configured_port base + k))"
  shows "discover parse parse_url net b =
     \<lparr>outcome = Inr True, endpoint = tryUrl base (configured_port base + k),
      probed = b # map (tryUrl base) [configured_port base + 1 ..< configured_port base + k + 1]\<rparr>"
proof -
  let ?c = "configured_port base"
  have no: "\<forall>q \<in> set (?c # [?c + 1 ..< ?c + k]).
      q \<noteq> ?c \<longrightarrow> \<not> probe_ok parse parse_url net (tryUrl base q)"
    using before by simp
  have keep: "filter (\<lambda>q. q \<noteq> ?c) (?c # [?c + 1 ..< ?c + k]) = [?c + 1 ..< ?c + k]"
    by (simp add: filter_id_conv)
  have last: "[?c + 1 ..< ?c + k + 1] = [?c + 1 ..< ?c + k] @ [?c + k]"
    using k by simp
  have "scan parse parse_url net b base ?c
          ((?c # [?c + 1 ..< ?c + k]) @ (?c + k) # [?c + k + 1 ..< ?c + 10]) [b] =
        \<lparr>outcome = Inr True, endpoint = tryUrl base (?c + k),
         probed = [b] @ map (tryUrl base) (filter (\<lambda>q. q \<noteq> ?c) (?c # [?c + 1 ..< ?c + k])) @
           [tryUrl base (?c + k)]\<rparr>"
    using no k hit by (intro scan_first) simp_all
  then show ?thesis
    using url ports_split [OF k, of ?c] keep last
    by (simp add: discover_def Let_def del: scan.simps upt_Suc)
qed

lemma discover_none:
  assumes url: "parse_url b = Some base"
    and none: "\<forall>q \<in> set [configured_port base + 1 ..< configured_port base + 10].
        \<not> probe_ok parse parse_url net (tryUrl base q)"
  shows "discover parse parse_url net b =
     \<lparr>outcome = Inr False, endpoint = b,
      probed = b # map (tryUrl base) [configured_port base + 1 ..< configured_port base + 10]\<rparr>"
proof -
  let ?c = "configured_port base"
  have ports: "[?c ..< ?c + 10] = ?c # [?c + 1 ..< ?c + 10]"
    by (simp add: upt_conv_Cons)
  have no: "\<forall>q \<in> set (?c # [?c + 1 ..< ?c + 10]).
      q \<noteq> ?c \<longrightarrow> \<not> probe_ok parse parse_url net (tryUrl base q)"
    using none by simp
  have keep: "filter (\<lambda>q. q \<noteq> ?c) (?c # [?c + 1 ..< ?c + 10]) = [?c + 1 ..< ?c + 10]"
    by (simp add: filter_id_conv)
  from scan_none [OF no, of b "[b]"] keep url ports show ?thesis
    by (simp add: discover_def Let_def del: scan.simps upt_Suc)
qed

lemma scan_probed_prefix:
  "\<exists>rest. probed (scan parse parse_url net b base basePort ps issued) = issued @ rest"
proof (induction ps arbitrary: issued)
  case Nil
  show ?case by simp
next
  case (Cons p ps)
  from Cons [of issued] Cons [of "issued @ [tryUrl base p]"] show ?case
    by (auto simp: scan_Cons simp del: scan.simps)
qed

lemma discover_probes_next_port:
  assumes url: "parse_url b = Some base"
  shows "\<exists>rest. probed (discover parse parse_url net b) =
     b # tryUrl base (configured_port base + 1) # rest"
proof -
  let ?c = "configured_port base"
  have ports: "[?c ..< ?c + 10] = ?c # (?c + 1) # [?c + 2 ..< ?c + 10]"
    by (simp add: upt_conv_Cons)
  from scan_probed_prefix [of parse parse_url net b base ?c "[?c + 2 ..< ?c + 10]"
      "[b, tryUrl base (?c + 1)]"]
  show ?thesis
    using url ports by (auto simp: discover_def Let_def scan_Cons simp del: scan.simps upt_Suc)
qed

lemma scan_endpoint:
  "outcome (scan parse parse_url net b base basePort ps issued) = Inr True \<or>
   (outcome (scan parse parse_url net b base basePort ps issued) = Inr False \<and>
    endpoint (scan parse parse_url net b base basePort ps issued) = b)"
proof (induction ps arbitrary: issued)
  case Nil
  show ?case by simp
next
  case (Cons p ps)
  from Cons [of issued] Cons [of "issued @ [tryUrl base p]"] show ?case
    by (simp add: scan_Cons del: scan.simps)
qed

lemma healthCheck_cases:
  "healthCheck parse parse_url net b = discover parse parse_url net b \<or>
   (\<exists>ok. healthCheck parse parse_url net b = \<lparr>outcome = Inr ok, endpoint = b, probed = [b]\<rparr>)"
  by (simp add: healthCheck_def split: promise_result.split sum.split)

lemma healthCheck_frame:
  "outcome (healthCheck parse parse_url net b) \<noteq> Inr True \<Longrightarrow>
   endpoint (healthCheck parse parse_url net b) = b"
proof -
  assume nt: "outcome (healthCheck parse parse_url net b) \<noteq> Inr True"
  have d: "outcome (discover parse parse_url net b) \<noteq> Inr True \<Longrightarrow>
      endpoint (discover parse parse_url net b) = b"
  proof (cases "parse_url b")
    case None
    then show ?thesis by (simp add: discover_def)
  next
    case (Some base)
    assume "outcome (discover parse parse_url net b) \<noteq> Inr True"
    with Some scan_endpoint [of parse parse_url net b base "configured_port base"
        "[configured_port base ..< configured_port base + 10]" "[b]"]
    show ?thesis by (simp add: discover_def Let_def)
  qed
  from healthCheck_cases [of parse parse_url net b] nt d show ?thesis
    by auto
qed

lemma healthCheck_resolves:
  "parse_url b = Some base \<Longrightarrow> \<exists>ok. outcome (healthCheck parse parse_url net b) = Inr ok"
proof -
  assume url: "parse_url b = Some base"
  have "\<exists>ok. outcome (discover parse parse_url net b) = Inr ok"
    using url scan_endpoint [of parse parse_url net b base "configured_port base"
        "[configured_port base ..< configured_port base + 10]" "[b]"]
    by (auto simp: discover_def Let_def)
  with healthCheck_cases [of parse parse_url net b] show ?thesis
    by auto
qed

lemma dec_samples:
  "dec 8420 = ''8420''" "dec 8421 = ''8421''" "dec 8422 = ''8422''" "dec 8423 = ''8423''"
  "dec 8424 = ''8424''" "dec 8425 = ''8425''" "dec 8426 = ''8426''" "dec 8427 = ''8427''"
  "dec 8428 = ''8428''" "dec 8429 = ''8429''"
  by (simp_all add: dec.simps digit_char_def)

lemma sample_ports:
  "[8420 ..< 8430] = [8420, 8421, 8422, 8423, 8424, 8425, 8426, 8427, 8428, 8429 :: nat]"
  by (simp add: upt_rec_numeral)

lemma sample_url_values:
  "sample_parse_url ''http://127.0.0.1:8420'' = Some (sample_url 8420 ''/'')"
  "sample_parse_url ''http://127.0.0.1:8420/vibe'' = Some (sample_url 8420 ''/vibe'')"
  "sample_parse_url ''http://127.0.0.1:8420/health'' = Some (sample_url 8420 ''/health'')"
  "sample_parse_url ''http://127.0.0.1:8421/health'' = Some (sample_url 8421 ''/health'')"
  "sample_parse_url ''http://127.0.0.1:8422/health'' = Some (sample_url 8422 ''/health'')"
  "sample_parse_url ''http://127.0.0.1:8423/health'' = Some (sample_url 8423 ''/health'')"
  "sample_parse_url ''http://127.0.0.1:8424/health'' = Some (sample_url 8424 ''/health'')"
  "sample_parse_url ''http://127.0.0.1:8425/health'' = Some (sample_url 8425 ''/health'')"
  "sample_parse_url ''http://127.0.0.1:8426/health'' = Some (sample_url 8426 ''/health'')"
  "sample_parse_url ''http://127.0.0.1:8427/health'' = Some (sample_url 8427 ''/health'')"
  "sample_parse_url ''http://127.0.0.1:8428/health'' = Some (sample_url 8428 ''/health'')"
  "sample_parse_url ''http://127.0.0.1:8429/health'' = Some (sample_url 8429 ''/health'')"
  "sample_parse_url ''127.0.0.1:8420'' = None"
  "sample_parse_url ''127.0.0.1:8420/health'' = None"
  by (simp_all add: sample_parse_url_def sample_urls_def sample_ports dec_samples)

lemma sample_tryUrl:
  "tryUrl (sample_url 8420 ''/'') 8421 = ''http://127.0.0.1:8421''"
  "tryUrl (sample_url 8420 ''/'') 8422 = ''http://127.0.0.1:8422''"
  "tryUrl (sample_url 8420 ''/'') 8423 = ''http://127.0.0.1:8423''"
  "tryUrl (sample_url 8420 ''/'') 8424 = ''http://127.0.0.1:8424''"
  "tryUrl (sample_url 8420 ''/'') 8425 = ''http://127.0.0.1:8425''"
  "tryUrl (sample_url 8420 ''/'') 8426 = ''http://127.0.0.1:8426''"
  "tryUrl (sample_url 8420 ''/'') 8427 = ''http://127.0.0.1:8427''"
  "tryUrl (sample_url 8420 ''/'') 8428 = ''http://127.0.0.1:8428''"
  "tryUrl (sample_url 8420 ''/'') 8429 = ''http://127.0.0.1:8429''"
  by (simp_all add: tryUrl_def sample_url_def dec_samples)

lemma sample_fire:
  "fire sample_parse sample_parse_url (sample_net l) t ''http://127.0.0.1:8420'' None ''/health'' =
     (if l = 8420 then Resolved (JObj [(''status'', JStr ''ok'')])
      else Rejected (NetworkError ''ECONNREFUSED''))"
  "fire sample_parse sample_parse_url (sample_net l) t ''http://127.0.0.1:8421'' None ''/health'' =
     (if l = 8421 then Resolved (JObj [(''status'', JStr ''ok'')])
      else Rejected (NetworkError ''ECONNREFUSED''))"
  "fire sample_parse sample_parse_url (sample_net l) t ''http://127.0.0.1:8422'' None ''/health'' =
     (if l = 8422 then Resolved (JObj [(''status'', JStr ''ok'')])
      else Rejected (NetworkError ''ECONNREFUSED''))"
  "fire sample_parse sample_parse_url (sample_net l) t ''http://127.0.0.1:8423'' None ''/health'' =
     (if l = 8423 then Resolved (JObj [(''status'', JStr ''ok'')])
      else Rejected (NetworkError ''ECONNREFUSED''))"
  "fire sample_parse sample_parse_url (sample_net l) t ''http://127.0.0.1:8424'' None ''/health'' =
     (if l = 8424 then Resolved (JObj [(''status'', JStr ''ok'')])
      else Rejected (NetworkError ''ECONNREFUSED''))"
  "fire sample_parse sample_parse_url (sample_net l) t ''http://127.0.0.1:8425'' None ''/health'' =
     (if l = 8425 then Resolved (JObj [(''status'', JStr ''ok'')])
      else Rejected (NetworkError ''ECONNREFUSED''))"
  "fire sample_parse sample_parse_url (sample_net l) t ''http://127.0.0.1:8426'' None ''/health'' =
     (if l = 8426 then Resolved (JObj [(''status'', JStr ''ok'')])
      else Rejected (NetworkError ''ECONNREFUSED''))"
  "fire sample_parse sample_parse_url (sample_net l) t ''http://127.0.0.1:8427'' None ''/health'' =
     (if l = 8427 then Resolved (JObj [(''status'', JStr ''ok'')])
      else Rejected (NetworkError ''ECONNREFUSED''))"
  "fire sample_parse sample_parse_url (sample_net l) t ''http://127.0.0.1:8428'' None ''/health'' =
     (if l = 8428 then Resolved (JObj [(''status'', JStr ''ok'')])
      else Rejected (NetworkError ''ECONNREFUSED''))"
  "fire sample_parse sample_parse_url (sample_net l) t ''http://127.0.0.1:8429'' None ''/health'' =
     (if l = 8429 then Resolved (JObj [(''status'', JStr ''ok'')])
      else Rejected (NetworkError ''ECONNREFUSED''))"
  by (simp_all add: fire_def effective_base_def sample_url_values sample_url_def sample_net_def
      event_outcome_def response_end_def sample_parse_values)




lemma starting_fire:
  "fire sample_parse sample_parse_url starting_net t ''http://127.0.0.1:8420'' None ''/health'' =
     Resolved (JObj [(''status'', JStr ''starting'')])"
  "fire sample_parse sample_parse_url starting_net t ''http://127.0.0.1:8421'' None ''/health'' =
     Resolved (JObj [(''status'', JStr ''ok'')])"
  by (simp_all add: fire_def effective_base_def sample_url_values sample_url_def starting_net_def
      event_outcome_def response_end_def sample_parse_values)





lemma scan_true_source:
  "outcome (scan parse parse_url net b base basePort ps issued) = Inr True \<Longrightarrow>
   \<exists>q \<in> set ps. q \<noteq> basePort \<and> probe_ok parse parse_url net (tryUrl base q) \<and>
      endpoint (scan parse parse_url net b base basePort ps issued) = tryUrl base q"
proof (induction ps arbitrary: issued)
  case Nil
  then show ?case by simp
next
  case (Cons p ps)
  show ?case
  proof (cases "p = basePort")
    case True
    with Cons.prems Cons.IH [of issued] show ?thesis
      by (simp add: scan_Cons del: scan.simps)
  next
    case False
    show ?thesis
    proof (cases "probe_ok parse parse_url net (tryUrl base p)")
      case True
      with False show ?thesis
        by (simp add: scan_Cons del: scan.simps)
    next
      case no: False
      with False Cons.prems Cons.IH [of "issued @ [tryUrl base p]"] show ?thesis
        by (simp add: scan_Cons del: scan.simps)
    qed
  qed
qed

lemma healthCheck_changed:
  assumes "endpoint (healthCheck parse parse_url net b) \<noteq> b"
  shows "\<exists>base q. parse_url b = Some base \<and>
      configured_port base < q \<and> q < configured_port base + 10 \<and>
      probe_ok parse parse_url net (tryUrl base q) \<and>
      outcome (healthCheck parse parse_url net b) = Inr True \<and>
      endpoint (healthCheck parse parse_url net b) = tryUrl base q"
proof -
  from healthCheck_cases [of parse parse_url net b] assms
  have hd: "healthCheck parse parse_url net b = discover parse parse_url net b"
    by auto
  with assms have ch: "endpoint (discover parse parse_url net b) \<noteq> b"
    by simp
  then obtain base where url: "parse_url b = Some base"
    by (cases "parse_url b") (auto simp: discover_def)
  let ?c = "configured_port base"
  let ?r = "scan parse parse_url net b base ?c [?c ..< ?c + 10] [b]"
  have d: "discover parse parse_url net b = ?r"
    using url by (simp add: discover_def Let_def)
  with ch scan_endpoint [of parse parse_url net b base ?c "[?c ..< ?c + 10]" "[b]"]
  have t: "outcome ?r = Inr True"
    by auto
  from scan_true_source [OF t] obtain q where
    q: "q \<in> set [?c ..< ?c + 10]" "q \<noteq> ?c" "probe_ok parse parse_url net (tryUrl base q)"
      "endpoint ?r = tryUrl base q"
    by blast
  from q(1,2) have "?c < q" "q < ?c + 10" by auto
  with url q(3,4) t hd d show ?thesis by auto
qed

text \<open>
  Claim C3 as stated fails.  On \<open>starting_net\<close> the initial probe gets a well-formed response
  whose status is not ok, and the next port would report ok; yet the health check resolves
  to false after the single probe of the configured endpoint: no port is scanned.
\<close>

theorem discovery_trigger_counterexample:
  "\<not> probe_ok sample_parse sample_parse_url starting_net ''http://127.0.0.1:8420'' \<and>
   probe_ok sample_parse sample_parse_url starting_net ''http://127.0.0.1:8421'' \<and>
   healthCheck sample_parse sample_parse_url starting_net ''http://127.0.0.1:8420'' =
     \<lparr>outcome = Inr False, endpoint = ''http://127.0.0.1:8420'',
      probed = [''http://127.0.0.1:8420'']\<rparr>"
  by (simp add: probe_ok_def healthCheck_def starting_fire status_is_ok_def)

text \<open>
  Claim C3, amended.  Endpoint discovery is triggered exactly when the initial probe fails
  with an error: its request rejects (network, timeout, remote or invalid-response error) or
  reading the status of the decoded response throws.  An initial probe that does not fail
  with an error settles the health check at once, with the boolean "the response reports
  ok" and no further probe.  When the initial probe fails with an error and the configured
  endpoint parses as a URL, the port after the configured one is probed next; and when
  moreover none of the nine scanned ports reports ok, the health check resolves to false.
\<close>

theorem discovery_trigger:
  "(\<not> probe_throws parse parse_url net b \<longrightarrow>
      healthCheck parse parse_url net b =
        \<lparr>outcome = Inr (probe_ok parse parse_url net b), endpoint = b, probed = [b]\<rparr>) \<and>
   (probe_throws parse parse_url net b \<and> parse_url b = Some base \<longrightarrow>
      (\<exists>rest. probed (healthCheck parse parse_url net b) =
         b # tryUrl base (configured_port base + 1) # rest)) \<and>
   (probe_throws parse parse_url net b \<and> parse_url b = Some base \<and>
    (\<forall>q \<in> set [configured_port base + 1 ..< configured_port base + 10].
        \<not> probe_ok parse parse_url net (tryUrl base q)) \<longrightarrow>
      outcome (healthCheck parse parse_url net b) = Inr False)"
proof -
  have quiet: "\<not> probe_throws parse parse_url net b \<longrightarrow>
      healthCheck parse parse_url net b =
        \<lparr>outcome = Inr (probe_ok parse parse_url net b), endpoint = b, probed = [b]\<rparr>"
    by (simp add: healthCheck_no_throw)
  have scans: "probe_throws parse parse_url net b \<and> parse_url b = Some base \<longrightarrow>
      (\<exists>rest. probed (healthCheck parse parse_url net b) =
         b # tryUrl base (configured_port base + 1) # rest)"
  proof (intro impI, elim conjE)
    assume t: "probe_throws parse parse_url net b" and u: "parse_url b = Some base"
    show "\<exists>rest. probed (healthCheck parse parse_url net b) =
         b # tryUrl base (configured_port base + 1) # rest"
      unfolding healthCheck_throws [OF t] using u by (rule discover_probes_next_port)
  qed
  have unavailable: "probe_throws parse parse_url net b \<and> parse_url b = Some base \<and>
    (\<forall>q \<in> set [configured_port base + 1 ..< configured_port base + 10].
        \<not> probe_ok parse parse_url net (tryUrl base q)) \<longrightarrow>
      outcome (healthCheck parse parse_url net b) = Inr False"
    by (simp add: healthCheck_throws discover_none del: upt_Suc)
  from quiet scans unavailable show ?thesis by blast
qed

theorem discovery_trigger_witness:
  "healthCheck sample_parse sample_parse_url starting_net ''http://127.0.0.1:8420'' =
     \<lparr>outcome = Inr False, endpoint = ''http://127.0.0.1:8420'',
      probed = [''http://127.0.0.1:8420'']\<rparr> \<and>
   (\<exists>rest. probed (healthCheck sample_parse sample_parse_url (sample_net 9000)
        ''http://127.0.0.1:8420'') =
      ''http://127.0.0.1:8420'' # ''http://127.0.0.1:8421'' # rest) \<and>
   outcome (healthCheck sample_parse sample_parse_url (sample_net 9000)
        ''http://127.0.0.1:8420'') = Inr False"
proof -
  let ?b = "''http://127.0.0.1:8420''"
  have url: "sample_parse_url ?b = Some (sample_url 8420 ''/'')"
    by (rule sample_url_values)
  have port: "configured_port (sample_url 8420 ''/'') = 8420"
    by (simp add: configured_port_def sample_url_def)
  have quiet: "\<not> probe_throws sample_parse sample_parse_url starting_net ?b"
    and notok: "\<not> probe_ok sample_parse sample_parse_url starting_net ?b"
    by (simp_all add: probe_throws_def probe_ok_def starting_fire status_is_ok_def)
  have throws: "probe_throws sample_parse sample_parse_url (sample_net 9000) ?b"
    by (simp add: probe_throws_def sample_fire)
  have ports: "[8421 ..< 8430] = [8421, 8422, 8423, 8424, 8425, 8426, 8427, 8428, 8429 :: nat]"
    by (simp add: upt_rec_numeral)
  from discovery_trigger [of sample_parse sample_parse_url starting_net ?b "sample_url 8420 ''/''"]
    discovery_trigger [of sample_parse sample_parse_url "sample_net 9000" ?b "sample_url 8420 ''/''"]
    quiet notok throws url
  show ?thesis
    by (simp add: port ports sample_tryUrl probe_ok_def sample_fire del: upt_Suc)
qed

text \<open>
  Claim C8 concerns a health check that never rejects.  Every error that one of the three
  handlers of a probe reports is indeed absorbed (lemma \<open>healthCheck_resolves\<close>: with an
  endpoint that parses as a URL, and every request meeting one of the three events, the
  result is a boolean).  But \<^verbatim>\<open>new URL(this._baseUrl)\<close> in the \<^verbatim>\<open>catch\<close> block is
  unguarded: a client configured with \<^verbatim>\<open>127.0.0.1:8420\<close> (no scheme) fails its initial probe
  inside the URL constructor, enters the \<^verbatim>\<open>catch\<close> block, and rejects with the TypeError
  that the constructor throws there.
\<close>

theorem healthCheck_invalid_endpoint_rejects:
  "baseUrl (new_client ''127.0.0.1:8420'') = ''127.0.0.1:8420'' \<and>
   healthCheck sample_parse sample_parse_url (sample_net 8420) ''127.0.0.1:8420'' =
     \<lparr>outcome = Inl TypeError, endpoint = ''127.0.0.1:8420'', probed = [''127.0.0.1:8420'']\<rparr>"
  by (simp add: new_client_def healthCheck_def discover_def fire_def effective_base_def
      sample_url_values)

text \<open>
  Claim C10.  A health check that resolves to false leaves the endpoint as it was.  The
  endpoint differs afterwards only if the health check resolved to true on a discovery
  probe: then it is the URL of one of the nine ports after the configured one, and the probe
  of that port reported ok.
\<close>

theorem failed_check_keeps_endpoint:
  "(outcome (healthCheck parse parse_url net b) = Inr False \<longrightarrow>
      endpoint (healthCheck parse parse_url net b) = b) \<and>
   (endpoint (healthCheck parse parse_url net b) \<noteq> b \<longrightarrow>
      (\<exists>base q. parse_url b = Some base \<and>
         configured_port base < q \<and> q < configured_port base + 10 \<and>
         probe_ok parse parse_url net (tryUrl base q) \<and>
         outcome (healthCheck parse parse_url net b) = Inr True \<and>
         endpoint (healthCheck parse parse_url net b) = tryUrl base q))"
  using healthCheck_frame [of parse parse_url net b] healthCheck_changed [of parse parse_url net b]
  by auto

theorem failed_check_keeps_endpoint_witness:
  "outcome (healthCheck sample_parse sample_parse_url (sample_net 9000) ''http://127.0.0.1:8420'') =
     Inr False \<and>
   endpoint (healthCheck sample_parse sample_parse_url (sample_net 9000) ''http://127.0.0.1:8420'') =
     ''http://127.0.0.1:8420'' \<and>
   endpoint (healthCheck sample_parse sample_parse_url (sample_net 8423) ''http://127.0.0.1:8420'') =
     ''http://127.0.0.1:8423'' \<and>
   outcome (healthCheck sample_parse sample_parse_url (sample_net 8423) ''http://127.0.0.1:8420'') =
     Inr True"
proof -
  let ?b = "''http://127.0.0.1:8420''"
  have url: "sample_parse_url ?b = Some (sample_url 8420 ''/'')"
    by (rule sample_url_values)
  have port: "configured_port (sample_url 8420 ''/'') = 8420"
    by (simp add: configured_port_def sample_url_def)
  have ports: "[8421 ..< 8430] = [8421, 8422, 8423, 8424, 8425, 8426, 8427, 8428, 8429 :: nat]"
    "[8421 ..< 8423] = [8421, 8422 :: nat]" "[8421 ..< 8424] = [8421, 8422, 8423 :: nat]"
    by (simp_all add: upt_rec_numeral)
  have dead: "healthCheck sample_parse sample_parse_url (sample_net 9000) ?b =
      discover sample_parse sample_parse_url (sample_net 9000) ?b"
    and live: "healthCheck sample_parse sample_parse_url (sample_net 8423) ?b =
      discover sample_parse sample_parse_url (sample_net 8423) ?b"
    by (simp_all add: healthCheck_throws probe_throws_def sample_fire)
  have false: "outcome (healthCheck sample_parse sample_parse_url (sample_net 9000) ?b) = Inr False"
    unfolding dead
    using url discover_none [where parse_url = sample_parse_url and b = ?b
        and base = "sample_url 8420 ''/''" and parse = sample_parse and net = "sample_net 9000"]
    by (simp add: port ports sample_tryUrl probe_ok_def sample_fire del: upt_Suc)
  have moved: "endpoint (healthCheck sample_parse sample_parse_url (sample_net 8423) ?b) =
      ''http://127.0.0.1:8423''"
    unfolding live
    using url discover_first [where parse_url = sample_parse_url and b = ?b and k = 3
        and base = "sample_url 8420 ''/''" and parse = sample_parse and net = "sample_net 8423"]
    by (simp add: port ports sample_tryUrl probe_ok_def sample_fire status_is_ok_def
        del: upt_Suc)
  from failed_check_keeps_endpoint [of sample_parse sample_parse_url "sample_net 9000" ?b]
    failed_check_keeps_endpoint [of sample_parse sample_parse_url "sample_net 8423" ?b]
    false moved
  show ?thesis by auto
qed


section \<open>Stream ingestion\<close>

lemma split_blank_nonempty: "split_blank s \<noteq> []"
  by (induction s rule: split_blank.induct) (auto simp: cons_first_def split: list.splits)

lemma split_blank_single: "split_blank s = [u] \<Longrightarrow> u = s"
proof (induction s arbitrary: u rule: split_blank.induct)
  case 1
  then show ?case by simp
next
  case (2 c)
  then show ?case by simp
next
  case (3 c d rest)
  show ?case
  proof (cases "c = CHR 0x0A \<and> d = CHR 0x0A")
    case True
    with "3.prems" split_blank_nonempty [of rest] show ?thesis by simp
  next
    case False
    obtain v vs where S: "split_blank (d # rest) = v # vs"
      using split_blank_nonempty [of "d # rest"] by (cases "split_blank (d # rest)") auto
    with False "3.prems" have "vs = []" "u = c # v"
      by (auto simp: cons_first_def)
    with S "3.IH"(2) [OF False, of v] show ?thesis by simp
  qed
qed

lemma cons_first_append:
  "xs \<noteq> [] \<Longrightarrow> cons_first c (xs @ ys) = cons_first c xs @ ys"
  by (cases xs) (auto simp: cons_first_def)

lemma split_blank_append:
  "split_blank (a @ b) = butlast (split_blank a) @ split_blank (last (split_blank a) @ b)"
proof (induction a rule: split_blank.induct)
  case 1
  show ?case by simp
next
  case (2 c)
  show ?case by simp
next
  case (3 c d rest)
  show ?case
  proof (cases "c = CHR 0x0A \<and> d = CHR 0x0A")
    case True
    with "3.IH"(1) split_blank_nonempty [of rest] show ?thesis by simp
  next
    case False
    let ?S = "split_blank (d # rest)"
    have ih: "split_blank ((d # rest) @ b) = butlast ?S @ split_blank (last ?S @ b)"
      using "3.IH"(2) [OF False] .
    have lhs: "split_blank ((c # d # rest) @ b) = cons_first c (split_blank ((d # rest) @ b))"
      by (simp only: append_Cons split_blank.simps False if_False)
    have sa: "split_blank (c # d # rest) = cons_first c ?S"
      by (simp only: split_blank.simps False if_False)
    obtain v vs where S: "?S = v # vs"
      using split_blank_nonempty [of "d # rest"] by (cases ?S) auto
    show ?thesis
    proof (cases "vs = []")
      case True
      with S split_blank_single [of "d # rest" v] have v: "v = d # rest" by simp
      have "butlast (split_blank (c # d # rest)) = []"
        "last (split_blank (c # d # rest)) = c # d # rest"
        unfolding sa using True S v by (simp_all add: cons_first_def del: split_blank.simps)
      then show ?thesis
        by (simp del: split_blank.simps)
    next
      case nonempty: False
      with S have bl: "butlast (cons_first c ?S) = cons_first c (butlast ?S)"
        and la: "last (cons_first c ?S) = last ?S" and ne: "butlast ?S \<noteq> []"
        by (simp_all add: cons_first_def)
      from lhs ih have "split_blank ((c # d # rest) @ b) =
          cons_first c (butlast ?S @ split_blank (last ?S @ b))"
        by (simp del: split_blank.simps)
      also have "\<dots> = cons_first c (butlast ?S) @ split_blank (last ?S @ b)"
        using ne by (rule cons_first_append)
      finally show ?thesis
        unfolding sa bl la by (simp del: split_blank.simps)
    qed
  qed
qed

text \<open>What one block does, in terms of its decoding.\<close>

lemma on_block_decode:
  "on_block parse sink block st =
     (case decode parse block of
        None \<Rightarrow> st
      | Some d \<Rightarrow>
          st\<lparr>lastStatus := unit_status d,
             progress := progress st @ (if sink then unit_progress d else [])\<rparr>)"
proof (cases "take 6 (trim block) = ''data: ''")
  case False
  then show ?thesis by (simp add: on_block_def decode_def)
next
  case True
  show ?thesis
  proof (cases "parse (drop 6 (trim block))")
    case None
    with True show ?thesis by (simp add: on_block_def decode_def)
  next
    case (Some d)
    with True show ?thesis
      by (cases d)
         (simp_all add: on_block_def decode_def unit_status_def unit_progress_def or_else_def
            Let_def split: option.split json.split)
  qed
qed

lemma buffer_on_block [simp]: "buffer (on_block parse sink block st) = buffer st"
  by (simp add: on_block_decode split: option.split)

lemma buffer_fold_on_block [simp]:
  "buffer (fold (on_block parse sink) blocks st) = buffer st"
  by (induction blocks arbitrary: st) simp_all

lemma on_block_buffer_update:
  "on_block parse sink block (st\<lparr>buffer := r\<rparr>) = (on_block parse sink block st)\<lparr>buffer := r\<rparr>"
  by (simp add: on_block_decode split: option.split)

lemma fold_on_block_buffer_update:
  "fold (on_block parse sink) blocks (st\<lparr>buffer := r\<rparr>) =
   (fold (on_block parse sink) blocks st)\<lparr>buffer := r\<rparr>"
  by (induction blocks arbitrary: st) (simp_all add: on_block_buffer_update)

lemma fold_on_block_progress:
  "progress (fold (on_block parse sink) blocks st) =
     progress st @
     (if sink then concat (map unit_progress (List.map_filter (decode parse) blocks)) else [])"
  by (induction blocks arbitrary: st)
     (simp_all add: on_block_decode List.map_filter_simps split: option.split)

lemma map_filter_snoc:
  "List.map_filter f (xs @ [x]) =
     List.map_filter f xs @ (case f x of None \<Rightarrow> [] | Some y \<Rightarrow> [y])"
  by (simp add: List.map_filter_def split: option.split)

lemma fold_on_block_status:
  "lastStatus (fold (on_block parse sink) blocks st) =
     (case rev (List.map_filter (decode parse) blocks) of
        [] \<Rightarrow> lastStatus st
      | d # ds \<Rightarrow> unit_status d)"
proof (induction blocks rule: rev_induct)
  case Nil
  show ?case by (simp add: List.map_filter_simps)
next
  case (snoc block blocks)
  let ?st = "fold (on_block parse sink) blocks st"
  have step: "fold (on_block parse sink) (blocks @ [block]) st = on_block parse sink block ?st"
    by simp
  show ?case
  proof (cases "decode parse block")
    case None
    then show ?thesis
      unfolding step using snoc
      by (simp add: on_block_decode [of parse sink block] map_filter_snoc)
  next
    case (Some d)
    then show ?thesis
      unfolding step
      by (simp add: on_block_decode [of parse sink block] map_filter_snoc)
  qed
qed

text \<open>Chunked delivery amounts to one pass over the complete units of the whole stream.\<close>

lemma ingest_whole:
  "ingest parse sink chunks =
     fold (on_block parse sink) (complete_units (concat chunks))
       (pull_start\<lparr>buffer := last (split_blank (concat chunks))\<rparr>)"
proof (induction chunks rule: rev_induct)
  case Nil
  show ?case by (simp add: ingest_def complete_units_def pull_start_def)
next
  case (snoc chunk chunks)
  let ?S = "concat chunks"
  let ?B = "last (split_blank ?S)"
  let ?X = "split_blank (?B @ chunk)"
  have X: "?X \<noteq> []" by (rule split_blank_nonempty)
  have whole: "split_blank (concat (chunks @ [chunk])) = butlast (split_blank ?S) @ ?X"
    using split_blank_append [of ?S chunk] by simp
  have units: "complete_units (concat (chunks @ [chunk])) = complete_units ?S @ butlast ?X"
    unfolding complete_units_def whole using X by (simp add: butlast_append)
  have rest: "last (split_blank (concat (chunks @ [chunk]))) = last ?X"
    unfolding whole using X by simp
  have buf: "buffer (ingest parse sink chunks) = ?B"
    unfolding snoc by simp
  have "ingest parse sink (chunks @ [chunk]) = on_data parse sink chunk (ingest parse sink chunks)"
    by (simp add: ingest_def)
  also have "\<dots> = fold (on_block parse sink) (butlast ?X)
      ((ingest parse sink chunks)\<lparr>buffer := last ?X\<rparr>)"
    using X by (simp add: on_data_def Let_def buf)
  also have "\<dots> = fold (on_block parse sink) (butlast ?X)
      (fold (on_block parse sink) (complete_units ?S) (pull_start\<lparr>buffer := last ?X\<rparr>))"
    unfolding snoc by (simp add: fold_on_block_buffer_update)
  also have "\<dots> = fold (on_block parse sink) (complete_units ?S @ butlast ?X)
      (pull_start\<lparr>buffer := last ?X\<rparr>)"
    by simp
  finally show ?case
    unfolding units rest .
qed

lemma ingest_progress:
  "progress (ingest parse True chunks) =
     concat (map unit_progress (decoded_units parse (concat chunks)))"
  by (simp add: ingest_whole fold_on_block_progress decoded_units_def pull_start_def)

lemma ingest_no_sink: "progress (ingest parse False chunks) = []"
  by (simp add: ingest_whole fold_on_block_progress pull_start_def)

lemma ingest_buffer:
  "buffer (ingest parse sink chunks) = last (split_blank (concat chunks))"
  by (simp add: ingest_whole)

lemma ingest_status:
  "lastStatus (ingest parse sink chunks) = last_known_status parse (concat chunks)"
  by (simp add: ingest_whole fold_on_block_status last_known_status_def decoded_units_def
      pull_start_def split: list.split)

lemma sample_stream_units:
  "complete_units (concat [sample_chunk1, sample_chunk2]) =
     [''data: {\"pct\":10,\"status\":\"running\"}'', ''data: {\"status\":\"done\"}'']"
  "last (split_blank (concat [sample_chunk1, sample_chunk2])) = []"
  "complete_units (concat [sample_error_stream]) =
     [''data: {\"pct\":10,\"status\":\"running\"}'', ''data: {\"status\":\"error\"}'']"
  "last (split_blank (concat [sample_error_stream])) = ''data: {\"status\":\"do''"
  by (simp_all add: complete_units_def sample_chunk1_def sample_chunk2_def
      sample_error_stream_def cons_first_def)

lemma sample_decode:
  "decode sample_parse ''data: {\"pct\":10,\"status\":\"running\"}'' =
     Some (JObj [(''pct'', JNum 10), (''status'', JStr ''running'')])"
  "decode sample_parse ''data: {\"status\":\"done\"}'' = Some (JObj [(''status'', JStr ''done'')])"
  "decode sample_parse ''data: {\"status\":\"error\"}'' = Some (JObj [(''status'', JStr ''error'')])"
  by (simp_all add: decode_def trim_def js_space_def sample_parse_values)

lemma sample_decoded_units:
  "decoded_units sample_parse (concat [sample_chunk1, sample_chunk2]) =
     [JObj [(''pct'', JNum 10), (''status'', JStr ''running'')], JObj [(''status'', JStr ''done'')]]"
  "decoded_units sample_parse (concat [sample_error_stream]) =
     [JObj [(''pct'', JNum 10), (''status'', JStr ''running'')], JObj [(''status'', JStr ''error'')]]"
  unfolding decoded_units_def sample_stream_units
  by (simp_all add: List.map_filter_simps sample_decode)

text \<open>
  Claim C4.  For every chunked delivery of a pull stream that ends, the object that
  \<^verbatim>\<open>pullModel\<close> resolves to depends on the stream only through its last known status,
  the status (by default the empty string) of the last decodable complete unit, or the
  empty string when there is none: \<^verbatim>\<open>done\<close> and \<^verbatim>\<open>success\<close> give status ok with the
  requested model, \<^verbatim>\<open>error\<close> gives status error with the message \<^verbatim>\<open>Pull failed\<close>, and
  every other value gives status ok with the requested model.
\<close>

theorem pull_terminal_outcome:
  "pullModel parse sink requested chunks =
     (if last_known_status parse (concat chunks) = JStr ''done'' \<or>
         last_known_status parse (concat chunks) = JStr ''success''
      then \<lparr>out_status = ''ok'', out_model = Some requested, out_message = None\<rparr>
      else if last_known_status parse (concat chunks) = JStr ''error''
      then \<lparr>out_status = ''error'', out_model = None, out_message = Some ''Pull failed''\<rparr>
      else \<lparr>out_status = ''ok'', out_model = Some requested, out_message = None\<rparr>)"
  by (simp only: pullModel_def on_end_def ingest_status)

theorem pull_terminal_outcome_witness:
  "pullModel sample_parse True ''llama3'' [sample_chunk1, sample_chunk2] =
     \<lparr>out_status = ''ok'', out_model = Some ''llama3'', out_message = None\<rparr> \<and>
   pullModel sample_parse True ''llama3'' [sample_error_stream] =
     \<lparr>out_status = ''error'', out_model = None, out_message = Some ''Pull failed''\<rparr> \<and>
   pullModel sample_parse True ''llama3'' [] =
     \<lparr>out_status = ''ok'', out_model = Some ''llama3'', out_message = None\<rparr>"
proof -
  have finished: "last_known_status sample_parse (concat [sample_chunk1, sample_chunk2]) = JStr ''done''"
    and error: "last_known_status sample_parse (concat [sample_error_stream]) = JStr ''error''"
    unfolding last_known_status_def sample_decoded_units
    by (simp_all add: unit_status_def)
  have never: "last_known_status sample_parse (concat []) = JStr []"
    by (simp add: last_known_status_def decoded_units_def complete_units_def
        List.map_filter_simps)
  show ?thesis
    unfolding pull_terminal_outcome [of sample_parse True "''llama3''"] finished error never
    by simp
qed

text \<open>
  Claim C7.  For every chunked delivery, the calls received by the progress sink are, in
  arrival order, the pairs of \<^verbatim>\<open>pct\<close> and status of exactly those decodable complete units
  of the whole stream whose \<^verbatim>\<open>pct\<close> is a number: chunk boundaries do not matter.  Without a
  sink nothing is reported.  After each chunk the buffer holds the trailing partial unit,
  the text after the last blank line received so far.
\<close>

theorem progress_in_arrival_order:
  "progress (ingest parse True chunks) =
     concat (map unit_progress (decoded_units parse (concat chunks))) \<and>
   progress (ingest parse False chunks) = [] \<and>
   buffer (ingest parse sink chunks) = last (split_blank (concat chunks))"
  by (simp only: ingest_progress ingest_no_sink ingest_buffer)

theorem progress_in_arrival_order_witness:
  "progress (ingest sample_parse True [sample_chunk1, sample_chunk2]) = [(10, JStr ''running'')] \<and>
   buffer (ingest sample_parse True [sample_chunk1]) = sample_chunk1 \<and>
   buffer (ingest sample_parse True [sample_chunk1, sample_chunk2]) = []"
proof -
  have first: "last (split_blank (concat [sample_chunk1])) = sample_chunk1"
    by (simp add: sample_chunk1_def cons_first_def)
  have events: "concat (map unit_progress
      (decoded_units sample_parse (concat [sample_chunk1, sample_chunk2]))) =
      [(10, JStr ''running'')]"
    unfolding sample_decoded_units by (simp add: unit_progress_def unit_status_def)
  from progress_in_arrival_order [of sample_parse "[sample_chunk1, sample_chunk2]" True]
    progress_in_arrival_order [of sample_parse "[sample_chunk1]" True]
  show ?thesis
    unfolding events sample_stream_units first by simp
qed

end
